theory Spec2Isabelle
  imports Complex_Main
begin

section \<open>Enumerated vocabulary of \<^verbatim>\<open>data.py\<close>\<close>

text \<open>
  Every enumeration of the source is a Python \<^verbatim>\<open>Enum\<close> whose members are listed in
  declaration order; each becomes a datatype with the members as constructors, in
  that order. Member names that occur in several enumerations (\<open>OTHER\<close>, \<open>UNKNOWN\<close>) are
  written with their type as qualifier where it matters.
\<close>

datatype DistanceGroup =
  ZERO | G_500M | G_1KM | G_2KM | G_3KM | G_5KM | G_10KM | G_25KM | G_50KM | G_100KM
  | OVER_100KM

datatype DurationGroup =
  G_5MIN | G_15MIN | G_30MIN | G_60MIN | G_120MIN | G_180MIN | G_300MIN | G_420MIN
  | G_480MIN | G_510MIN | G_570MIN | G_660MIN | G_750MIN | REST_OF_DAY

text \<open>
  The exceptions a run can end with. \<open>ValueError\<close>, \<open>TypeError\<close>, \<open>IndexError\<close> and
  \<open>KeyError\<close> are the built-in exceptions raised by \<^verbatim>\<open>int\<close>, \<^verbatim>\<open>float\<close>, \<^verbatim>\<open>+\<close>,
  \<^verbatim>\<open>np.digitize\<close>, \<^verbatim>\<open>np.take\<close> and \<^verbatim>\<open>DataFrame.set_index\<close>. \<open>ValidationError\<close> and
  \<open>ConfigurationError\<close> are the error kinds the specification names; no statement of
  the source raises either of them.
\<close>

datatype error =
  ValueError | TypeError | IndexError | KeyError | ValidationError | ConfigurationError

section \<open>The numpy operations used by the classifiers\<close>

text \<open>
  Measurements are modelled as real numbers: the classifiers only compare a value with
  the bucket boundaries, every boundary is a small integer or \<open>0.5\<close> and so an exact
  double, and the order of finite doubles is the order of the reals they denote.
  NaN and the infinities are outside this model.
\<close>

text \<open>
  \<^verbatim>\<open>np.searchsorted(bins, v, side='left')\<close> on an ascending array: the first index whose
  entry is not below \<open>v\<close>, the length of the array when there is none.
\<close>

fun searchsorted_left :: "real list \<Rightarrow> real \<Rightarrow> nat" where
  "searchsorted_left [] v = 0"
| "searchsorted_left (b # bs) v = (if b < v then Suc (searchsorted_left bs v) else 0)"

text \<open>
  \<^verbatim>\<open>np.digitize(values, bins, right=True)\<close>. numpy tests the bins for monotonicity,
  ascending first; ascending bins are searched from the left, descending bins are
  reversed, searched from the left and the result counted from the other end,
  anything else is a \<open>ValueError\<close>.
\<close>

definition np_digitize :: "real list \<Rightarrow> real list \<Rightarrow> error + nat list" where
  "np_digitize values bins =
     (if sorted bins then Inr (map (searchsorted_left bins) values)
      else if sorted (rev bins)
        then Inr (map (\<lambda>v. length bins - searchsorted_left (rev bins) v) values)
      else Inl ValueError)"

text \<open>\<^verbatim>\<open>np.where(flags)\<close> on a one-dimensional boolean array: the indices that hold True.\<close>

definition np_where :: "bool list \<Rightarrow> nat list" where
  "np_where flags = filter (\<lambda>i. flags ! i) [0..<length flags]"

text \<open>
  \<^verbatim>\<open>idx[positions] = c\<close>: the assignment through an index array, one position after the
  other. Every position produced by \<open>np_where\<close> is in range.
\<close>

definition setitem :: "nat list \<Rightarrow> nat list \<Rightarrow> nat \<Rightarrow> nat list" where
  "setitem idx positions c = fold (\<lambda>i a. a[i := c]) positions idx"

text \<open>
  \<^verbatim>\<open>np.take(arr, idx, axis=0)\<close> in its default mode \<^verbatim>\<open>'raise'\<close>: an index beyond the
  array is an \<open>IndexError\<close> for the whole batch.
\<close>

definition np_take :: "'a list \<Rightarrow> nat list \<Rightarrow> error + 'a list" where
  "np_take arr idx =
     (if list_all (\<lambda>i. i < length arr) idx then Inr (map (\<lambda>i. arr ! i) idx)
      else Inl IndexError)"

section \<open>The classifiers\<close>

text \<open>\<^verbatim>\<open>np.asarray(DistanceGroup, dtype=object)\<close>: the members in declaration order.\<close>

definition DistanceGroup_members :: "DistanceGroup list" where
  "DistanceGroup_members =
     [ZERO, G_500M, G_1KM, G_2KM, G_3KM, G_5KM, G_10KM, G_25KM, G_50KM, G_100KM, OVER_100KM]"

definition DurationGroup_members :: "DurationGroup list" where
  "DurationGroup_members =
     [G_5MIN, G_15MIN, G_30MIN, G_60MIN, G_120MIN, G_180MIN, G_300MIN, G_420MIN, G_480MIN,
      G_510MIN, G_570MIN, G_660MIN, G_750MIN, REST_OF_DAY]"

text \<open>The boundary tables, as the two \<^verbatim>\<open>cut\<close> methods write them.\<close>

definition distance_bins :: "real list" where
  "distance_bins = [0, 0.5, 1, 2, 3, 5, 10, 25, 50, 100]"

definition duration_bins :: "real list" where
  "duration_bins = [5, 15, 30, 60, 120, 180, 300, 420, 480, 510, 570, 660, 750]"

text \<open>
  \<^verbatim>\<open>DistanceGroup.cut\<close>: digitize, then set the index of every value \<open>\<le> 0\<close> to 0, then
  take the members at the indices.
\<close>

definition DistanceGroup_cut :: "real list \<Rightarrow> error + DistanceGroup list" where
  "DistanceGroup_cut values =
     (case np_digitize values distance_bins of
        Inl e \<Rightarrow> Inl e
      | Inr idx \<Rightarrow>
          np_take DistanceGroup_members
            (setitem idx (np_where (map (\<lambda>v. v \<le> 0) values)) 0))"

text \<open>\<^verbatim>\<open>DurationGroup.cut\<close>: digitize and take; there is no override.\<close>

definition DurationGroup_cut :: "real list \<Rightarrow> error + DurationGroup list" where
  "DurationGroup_cut values =
     (case np_digitize values duration_bins of
        Inl e \<Rightarrow> Inl e
      | Inr idx \<Rightarrow> np_take DurationGroup_members idx)"

text \<open>
  The label of one value, written out: what the batch operations compute at each
  position. These two functions are not in the source; they state the per-value
  reading of the two methods that the theorems below compare the batch with.
\<close>

definition distance_group :: "real \<Rightarrow> DistanceGroup" where
  "distance_group v =
     (if v \<le> 0 then ZERO else DistanceGroup_members ! searchsorted_left distance_bins v)"

definition duration_group :: "real \<Rightarrow> DurationGroup" where
  "duration_group v = DurationGroup_members ! searchsorted_left duration_bins v"

section \<open>The other enumerations\<close>

datatype ParkingPosition = PRIVATE | PUBLIC | DIFFERENT | NA

datatype HouseholdType = MULTI_W_CHILDREN | MULTI_WO_CHILDREN | SINGLE

datatype EconomicStatus = VERY_LOW | LOW | MEDIUM | HIGH | VERY_HIGH | UNKNOWN

datatype Gender = M | F | OTHER

datatype Employment =
  CHILD | HOMEMAKER | RETIREE | UNEMPLOYED | SCHOOL | STUDENT | TRAINEE | JOB_FULL_TIME
  | JOB_PART_TIME | OTHER

datatype Availability = YES | NO | UNKNOWN

datatype Purpose =
  WORK | WORK_BUSINESS | EDU_PRIMARY | EDU_HIGHER | EDU_OTHER | SHOP_FOOD | SHOP_OTHER
  | PERSONAL_BUSINESS | TRANSPORT | LEISURE | DINING | OUTSIDE_RECREATION | VISIT | HOME
  | OTHER

datatype TripMode = WALK | BIKE | CAR | RIDE | PT | OTHER

datatype SourceDestinationGroup =
  HOME_WORK | HOME_CHILDCARE | HOME_EDU | HOME_BUSINESS | HOME_SHOP | HOME_LEISURE
  | HOME_OTHER | WORK_HOME | CHILDCARE_HOME | EDU_HOME | BUSINESS_HOME | SHOP_HOME
  | LEISURE_HOME | OTHER_HOME | OTHER_WORK | WORK_OTHER | OTHER_OTHER | UNKNOWN

section \<open>Python values and the built-in conversions\<close>

text \<open>
  A cell of a raw table, as \<^verbatim>\<open>DataFrame.itertuples\<close> hands it out: a Python \<^verbatim>\<open>int\<close>, a
  \<^verbatim>\<open>float\<close> (finite, or NaN for an empty cell) or a \<^verbatim>\<open>str\<close>. Finite floats are
  modelled by the reals they denote, so the rounding of a float addition and the
  infinities are outside the model; strings are ASCII text.
\<close>

datatype pyfloat = Finite real | NaN

datatype pyval = PInt int | PFloat pyfloat | PStr string

text \<open>Sequencing of steps that may raise: the first exception ends the computation.\<close>

definition bind_err :: "error + 'a \<Rightarrow> ('a \<Rightarrow> error + 'b) \<Rightarrow> error + 'b" where
  "bind_err m f = (case m of Inl e \<Rightarrow> Inl e | Inr x \<Rightarrow> f x)"

text \<open>The characters \<^verbatim>\<open>str.strip\<close> removes, within ASCII.\<close>

definition is_space :: "char \<Rightarrow> bool" where
  "is_space c \<longleftrightarrow>
     c \<in> set [CHR '' '', CHR 0x09, CHR 0x0A, CHR 0x0B, CHR 0x0C, CHR 0x0D,
               CHR 0x1C, CHR 0x1D, CHR 0x1E, CHR 0x1F]"

definition strip :: "string \<Rightarrow> string" where
  "strip s = rev (dropWhile is_space (rev (dropWhile is_space s)))"

definition digit_val :: "char \<Rightarrow> nat option" where
  "digit_val c =
     map_of [(CHR ''0'', 0), (CHR ''1'', 1), (CHR ''2'', 2), (CHR ''3'', 3), (CHR ''4'', 4),
             (CHR ''5'', 5), (CHR ''6'', 6), (CHR ''7'', 7), (CHR ''8'', 8), (CHR ''9'', 9)] c"

text \<open>
  The digits of a decimal literal, read from the left; a single underscore may stand
  between two digits.
\<close>

fun digits_value :: "string \<Rightarrow> nat \<Rightarrow> nat option" where
  "digits_value [] acc = Some acc"
| "digits_value (c # cs) acc =
     (case digit_val c of
        Some d \<Rightarrow> digits_value cs (10 * acc + d)
      | None \<Rightarrow>
          (if c = CHR ''_'' then
             (case cs of
                [] \<Rightarrow> None
              | c' # _ \<Rightarrow> (if digit_val c' = None then None else digits_value cs acc))
           else None))"

definition int_literal :: "string \<Rightarrow> nat option" where
  "int_literal s =
     (case s of
        [] \<Rightarrow> None
      | c # _ \<Rightarrow> (if digit_val c = None then None else digits_value s 0))"

text \<open>
  \<^verbatim>\<open>int(s)\<close> for a string: surrounding whitespace is dropped, one sign is allowed, the
  rest must be a decimal literal; anything else is a \<open>ValueError\<close>. (The limit that
  recent interpreters put on the number of digits is not modelled.)
\<close>

definition int_of_str :: "string \<Rightarrow> error + int" where
  "int_of_str s =
     (let t = strip s;
          neg = (case t of [] \<Rightarrow> False | c # _ \<Rightarrow> c = CHR ''-'');
          body = (case t of [] \<Rightarrow> [] | c # cs \<Rightarrow> (if c = CHR ''-'' \<or> c = CHR ''+'' then cs else t))
      in case int_literal body of
           None \<Rightarrow> Inl ValueError
         | Some n \<Rightarrow> Inr (if neg then - int n else int n))"

text \<open>
  \<^verbatim>\<open>int(x)\<close>: an integer is itself, a finite float is truncated toward zero, NaN and
  a string that is no integer literal raise \<open>ValueError\<close>.
\<close>

definition py_int :: "pyval \<Rightarrow> error + int" where
  "py_int x =
     (case x of
        PInt n \<Rightarrow> Inr n
      | PFloat (Finite r) \<Rightarrow> Inr (if 0 \<le> r then \<lfloor>r\<rfloor> else \<lceil>r\<rceil>)
      | PFloat NaN \<Rightarrow> Inl ValueError
      | PStr s \<Rightarrow> int_of_str s)"

text \<open>
  \<^verbatim>\<open>float(x)\<close>. The grammar of float literals plays no part in any property below,
  so the conversion of a string is a parameter \<open>str_float\<close> of the model: \<open>None\<close>
  where Python raises \<open>ValueError\<close>.
\<close>

definition py_float :: "(string \<Rightarrow> pyfloat option) \<Rightarrow> pyval \<Rightarrow> error + pyfloat" where
  "py_float str_float x =
     (case x of
        PInt n \<Rightarrow> Inr (Finite (of_int n))
      | PFloat f \<Rightarrow> Inr f
      | PStr s \<Rightarrow> (case str_float s of None \<Rightarrow> Inl ValueError | Some f \<Rightarrow> Inr f))"

text \<open>\<^verbatim>\<open>str(n)\<close> for an integer: its decimal digits, with a minus sign when negative.\<close>

fun digits_of_nat :: "nat \<Rightarrow> string" where
  "digits_of_nat n =
     (if n < 10 then [''0123456789'' ! n]
      else digits_of_nat (n div 10) @ [''0123456789'' ! (n mod 10)])"

declare digits_of_nat.simps [simp del]

definition py_str :: "int \<Rightarrow> string" where
  "py_str n = (if n < 0 then CHR ''-'' # digits_of_nat (nat (- n)) else digits_of_nat (nat n))"

text \<open>
  \<^verbatim>\<open>x + y\<close>: numbers add (an integer and a float give a float, NaN absorbs), two
  strings concatenate, a string and a number raise \<open>TypeError\<close>.
\<close>

fun py_add :: "pyval \<Rightarrow> pyval \<Rightarrow> error + pyval" where
  "py_add (PInt a) (PInt b) = Inr (PInt (a + b))"
| "py_add (PInt a) (PFloat (Finite b)) = Inr (PFloat (Finite (of_int a + b)))"
| "py_add (PFloat (Finite a)) (PInt b) = Inr (PFloat (Finite (a + of_int b)))"
| "py_add (PFloat (Finite a)) (PFloat (Finite b)) = Inr (PFloat (Finite (a + b)))"
| "py_add (PInt a) (PFloat NaN) = Inr (PFloat NaN)"
| "py_add (PFloat NaN) (PInt b) = Inr (PFloat NaN)"
| "py_add (PFloat NaN) (PFloat b) = Inr (PFloat NaN)"
| "py_add (PFloat (Finite a)) (PFloat NaN) = Inr (PFloat NaN)"
| "py_add (PStr a) (PStr b) = Inr (PStr (a @ b))"
| "py_add (PStr a) (PInt b) = Inl TypeError"
| "py_add (PStr a) (PFloat b) = Inl TypeError"
| "py_add (PInt a) (PStr b) = Inl TypeError"
| "py_add (PFloat a) (PStr b) = Inl TypeError"

text \<open>The truth value of a cell, as \<^verbatim>\<open>if x\<close> takes it; NaN is not zero, hence true.\<close>

definition truthy :: "pyval \<Rightarrow> bool" where
  "truthy x =
     (case x of
        PInt n \<Rightarrow> n \<noteq> 0
      | PFloat (Finite r) \<Rightarrow> r \<noteq> 0
      | PFloat NaN \<Rightarrow> True
      | PStr s \<Rightarrow> s \<noteq> [])"

text \<open>\<^verbatim>\<open>x == k\<close> for an integer constant \<open>k\<close>; a string or NaN equals no number.\<close>

definition py_eq_int :: "pyval \<Rightarrow> int \<Rightarrow> bool" where
  "py_eq_int x k =
     (case x of
        PInt n \<Rightarrow> n = k
      | PFloat (Finite r) \<Rightarrow> r = of_int k
      | PFloat NaN \<Rightarrow> False
      | PStr s \<Rightarrow> False)"

text \<open>\<^verbatim>\<open>pint\<close>: \<^verbatim>\<open>max(0, int(x))\<close>.\<close>

definition pint :: "pyval \<Rightarrow> error + int" where
  "pint x = bind_err (py_int x) (\<lambda>n. Inr (max 0 n))"

section \<open>Raw rows and standardized records\<close>

text \<open>
  One row of each raw table. The fields are the columns the source reads, named as the
  source reads them from the loop variable (\<^verbatim>\<open>p.HHNR\<close> is \<open>p_HHNR\<close>, \<^verbatim>\<open>h.HHNR\<close> is
  \<open>h_HHNR\<close>, \<^verbatim>\<open>t.HHNR\<close> is \<open>t_HHNR\<close>). A table that lacks one of these columns is
  outside the model.
\<close>

record person_row =
  p_HHNR :: pyval
  p_PNR :: pyval
  p_GEWICHT_P :: pyval
  p_V_ALTER :: pyval
  p_V_GESCHLECHT :: pyval
  p_V_EINSCHR_NEIN :: pyval
  p_V_ERW :: pyval
  p_V_FUEHR_PKW :: pyval
  p_V_PKW_VERFUEG :: pyval
  p_V_RAD_VERFUEG :: pyval
  p_V_ERAD_VERFUEG :: pyval
  p_V_FK_VERFUEG :: pyval
  p_V_WOHNUNG :: pyval
  p_V_WOHNORT :: pyval

record household_row =
  h_HHNR :: pyval
  h_GEWICHT_HH :: pyval
  h_V_ANZ_PERS :: pyval
  h_V_ANZ_PKW_PRIV :: pyval
  h_V_ANZ_PKW_DIENST :: pyval
  h_V_ANZ_RAD :: pyval
  h_V_ANZ_ERAD :: pyval
  h_V_ANZ_MOT125 :: pyval
  h_V_ANZ_MOPMOT :: pyval
  h_V_ANZ_SONST :: pyval
  h_V_STELLPL1 :: pyval
  h_V_EINK :: pyval
  h_E_HHTYP :: pyval
  h_ST_CODE_NAME :: pyval

record trip_row =
  t_HHNR :: pyval
  t_PNR :: pyval
  t_WNR :: pyval
  t_GEWICHT_W :: pyval
  t_STICHTAG_WTAG :: pyval
  t_E_BEGINN :: pyval
  t_E_DAUER :: pyval
  t_GIS_LAENGE :: pyval
  t_E_HVM :: pyval
  t_V_ZWECK :: pyval
  t_E_QZG_17 :: pyval
  t_E_WEG_GUELTIG :: pyval

text \<open>
  The dataclasses \<^verbatim>\<open>Person\<close>, \<^verbatim>\<open>Household\<close> and \<^verbatim>\<open>Trip\<close>, field for field. The fields
  \<^verbatim>\<open>p_id\<close> and \<^verbatim>\<open>n\<close> of \<^verbatim>\<open>Trip\<close> are \<open>trip_p_id\<close> and \<open>trip_n\<close> here, and \<^verbatim>\<open>type\<close> of
  \<^verbatim>\<open>Household\<close> is \<open>hh_type\<close>, since a field name belongs to one record. Weights and
  the location label are passed through as the raw cell.
\<close>

record Person =
  p_id :: string
  p_weight :: pyval
  hh :: string
  age :: int
  gender :: Gender
  restricted_mobility :: bool
  employment :: Employment
  driving_license :: Availability
  car_avail :: Availability
  bike_avail :: Availability
  pt_abo_avail :: Availability
  mobile_on_day :: bool
  present_on_day :: bool

record Household =
  hh_id :: string
  h_weight :: pyval
  n_persons :: int
  n_cars :: int
  n_bikes :: int
  n_other_vehicles :: int
  car_parking :: ParkingPosition
  economic_status :: EconomicStatus
  hh_type :: HouseholdType
  location :: pyval
  regionType :: int

record Trip =
  t_id :: string
  t_weight :: pyval
  trip_p_id :: string
  trip_n :: int
  day_of_week :: int
  departure :: int
  duration :: int
  gis_length :: pyfloat
  main_mode :: TripMode
  purpose :: Purpose
  sd_group :: SourceDestinationGroup
  valid :: bool

text \<open>
  A pandas \<^verbatim>\<open>DataFrame\<close> of records after \<^verbatim>\<open>set_index\<close>: the rows in their order, each
  with its index label. pandas does not ask index labels to be unique, so the frame is
  an association list. The column types pandas chooses for a frame are not modelled.
\<close>

type_synonym 'a frame = "(string \<times> 'a) list"

section \<open>The converter\<close>

text \<open>
  Modelled from the spec: the class \<^verbatim>\<open>SrV2018\<close> of the module \<^verbatim>\<open>converter\<close>, which
  \<^verbatim>\<open>srv_to_standard\<close> imports, is not among the sources. The specification describes
  its operations as pure functions from a raw code to a member of the vocabulary,
  total over the raw codes, \<^verbatim>\<open>economic_status\<close> taking the raw income code and the
  person subset of the household. The converter is therefore a parameter of the
  model: a record of total functions, about which nothing else is assumed.
\<close>

record SrV2018 =
  srv_gender :: "pyval \<Rightarrow> Gender"
  srv_employment :: "pyval \<Rightarrow> Employment"
  srv_yes_no :: "pyval \<Rightarrow> Availability"
  srv_veh_avail :: "pyval \<Rightarrow> Availability"
  srv_parking_position :: "pyval \<Rightarrow> ParkingPosition"
  srv_economic_status :: "pyval \<Rightarrow> Person frame \<Rightarrow> EconomicStatus"
  srv_household_type :: "pyval \<Rightarrow> HouseholdType"
  srv_trip_mode :: "pyval \<Rightarrow> TripMode"
  srv_trip_purpose :: "pyval \<Rightarrow> Purpose"
  srv_sd_group :: "int \<Rightarrow> SourceDestinationGroup"

section \<open>\<^verbatim>\<open>srv_to_standard\<close>\<close>

text \<open>
  The \<^verbatim>\<open>Person\<close> built from one row of the person table. The arguments of the
  constructor are evaluated from left to right; the ones that may raise are the calls
  of \<^verbatim>\<open>int\<close>.
\<close>

definition person_of :: "SrV2018 \<Rightarrow> person_row \<Rightarrow> error + Person" where
  "person_of c p =
     bind_err (py_int (p_HHNR p)) (\<lambda>hhnr.
     bind_err (py_int (p_PNR p)) (\<lambda>pnr.
     bind_err (py_int (p_V_ALTER p)) (\<lambda>alter.
       Inr \<lparr>p_id = py_str hhnr @ ''_'' @ py_str pnr,
            p_weight = p_GEWICHT_P p,
            hh = py_str hhnr,
            age = alter,
            gender = srv_gender c (p_V_GESCHLECHT p),
            restricted_mobility = (if truthy (p_V_EINSCHR_NEIN p) then False else True),
            employment = srv_employment c (p_V_ERW p),
            driving_license = srv_yes_no c (p_V_FUEHR_PKW p),
            car_avail = srv_veh_avail c (p_V_PKW_VERFUEG p),
            bike_avail =
              (if srv_veh_avail c (p_V_RAD_VERFUEG p) = YES
                  \<or> srv_veh_avail c (p_V_ERAD_VERFUEG p) = YES
               then YES else srv_veh_avail c (p_V_RAD_VERFUEG p)),
            pt_abo_avail = srv_veh_avail c (p_V_FK_VERFUEG p),
            mobile_on_day = py_eq_int (p_V_WOHNUNG p) 1,
            present_on_day = py_eq_int (p_V_WOHNORT p) 1\<rparr>)))"

text \<open>
  The \<^verbatim>\<open>Household\<close> built from one row of the household table; \<open>ps\<close> is the person
  frame, and \<^verbatim>\<open>ps[ps.hh == hh_id]\<close> its rows whose \<open>hh\<close> is the household's id.
\<close>

definition household_of :: "SrV2018 \<Rightarrow> Person frame \<Rightarrow> household_row \<Rightarrow> error + Household" where
  "household_of c ps h =
     bind_err (py_int (h_HHNR h)) (\<lambda>hhnr.
     bind_err (pint (h_V_ANZ_PERS h)) (\<lambda>persons.
     bind_err (bind_err (py_add (h_V_ANZ_PKW_PRIV h) (h_V_ANZ_PKW_DIENST h)) pint) (\<lambda>cars.
     bind_err (bind_err (py_add (h_V_ANZ_RAD h) (h_V_ANZ_ERAD h)) pint) (\<lambda>bikes.
     bind_err (bind_err (bind_err (py_add (h_V_ANZ_MOT125 h) (h_V_ANZ_MOPMOT h))
                          (\<lambda>s. py_add s (h_V_ANZ_SONST h))) pint) (\<lambda>others.
       Inr \<lparr>hh_id = py_str hhnr,
            h_weight = h_GEWICHT_HH h,
            n_persons = persons,
            n_cars = cars,
            n_bikes = bikes,
            n_other_vehicles = others,
            car_parking = srv_parking_position c (h_V_STELLPL1 h),
            economic_status =
              srv_economic_status c (h_V_EINK h)
                (filter (\<lambda>kp. hh (snd kp) = py_str hhnr) ps),
            hh_type = srv_household_type c (h_E_HHTYP h),
            location = h_ST_CODE_NAME h,
            regionType = 0\<rparr>)))))"

text \<open>The \<^verbatim>\<open>Trip\<close> built from one row of the trip table.\<close>

definition trip_of :: "SrV2018 \<Rightarrow> (string \<Rightarrow> pyfloat option) \<Rightarrow> trip_row \<Rightarrow> error + Trip" where
  "trip_of c str_float t =
     bind_err (py_int (t_HHNR t)) (\<lambda>hhnr.
     bind_err (py_int (t_PNR t)) (\<lambda>pnr.
     bind_err (py_int (t_WNR t)) (\<lambda>wnr.
     bind_err (py_int (t_STICHTAG_WTAG t)) (\<lambda>wtag.
     bind_err (py_int (t_E_BEGINN t)) (\<lambda>beginn.
     bind_err (py_int (t_E_DAUER t)) (\<lambda>dauer.
     bind_err (py_float str_float (t_GIS_LAENGE t)) (\<lambda>laenge.
     bind_err (py_int (t_E_QZG_17 t)) (\<lambda>qzg.
       Inr \<lparr>t_id = py_str hhnr @ ''_'' @ py_str pnr @ ''_'' @ py_str wnr,
            t_weight = t_GEWICHT_W t,
            trip_p_id = py_str hhnr @ ''_'' @ py_str pnr,
            trip_n = wnr,
            day_of_week = wtag,
            departure = beginn,
            duration = dauer,
            gis_length = laenge,
            main_mode = srv_trip_mode c (t_E_HVM t),
            purpose = srv_trip_purpose c (t_V_ZWECK t),
            sd_group = srv_sd_group c qzg,
            valid = (\<not> py_eq_int (t_E_WEG_GUELTIG t) 0)\<rparr>))))))))"

text \<open>
  \<^verbatim>\<open>for r in table.itertuples(): acc.append(f(r))\<close>: the rows in order, the record of
  each appended to the list; the first exception ends the loop and the run.
\<close>

fun itertuples_loop :: "('r \<Rightarrow> error + 'a) \<Rightarrow> 'r list \<Rightarrow> 'a list \<Rightarrow> error + 'a list" where
  "itertuples_loop f [] acc = Inr acc"
| "itertuples_loop f (r # rs) acc =
     (case f r of Inl e \<Rightarrow> Inl e | Inr x \<Rightarrow> itertuples_loop f rs (acc @ [x]))"

text \<open>
  \<^verbatim>\<open>pd.DataFrame(records).set_index(key)\<close>. A frame made from an empty list has no
  columns, and \<^verbatim>\<open>set_index\<close> raises \<open>KeyError\<close> on it; otherwise every row is labelled
  with its key. The default \<^verbatim>\<open>verify_integrity=False\<close> is in force: labels are not
  compared with each other.
\<close>

definition set_index :: "('a \<Rightarrow> string) \<Rightarrow> 'a list \<Rightarrow> error + 'a frame" where
  "set_index key records =
     (if records = [] then Inl KeyError else Inr (map (\<lambda>r. (key r, r)) records))"

text \<open>
  \<^verbatim>\<open>srv_to_standard\<close>: persons, their frame, households, trips, then the household
  frame and the trip frame of the returned triple.
\<close>

definition srv_to_standard ::
  "SrV2018 \<Rightarrow> (string \<Rightarrow> pyfloat option)
     \<Rightarrow> household_row list \<times> person_row list \<times> trip_row list
     \<Rightarrow> error + (Household frame \<times> Person frame \<times> Trip frame)" where
  "srv_to_standard c str_float data =
     (case data of (hh_rows, pp_rows, tt_rows) \<Rightarrow>
       bind_err (itertuples_loop (person_of c) pp_rows []) (\<lambda>ps.
       bind_err (set_index p_id ps) (\<lambda>ps.
       bind_err (itertuples_loop (household_of c ps) hh_rows []) (\<lambda>hhs.
       bind_err (itertuples_loop (trip_of c str_float) tt_rows []) (\<lambda>ts.
       bind_err (set_index hh_id hhs) (\<lambda>hhs.
       bind_err (set_index t_id ts) (\<lambda>ts.
         Inr (hhs, ps, ts))))))))"


section \<open>Readings of a result, and sample data\<close>

text \<open>
  The index labels of the three returned frames and the references the records carry,
  read off a result; an exception is passed on.
\<close>

definition household_index ::
  "error + (Household frame \<times> Person frame \<times> Trip frame) \<Rightarrow> error + string list" where
  "household_index r = bind_err r (\<lambda>out. Inr (map fst (fst out)))"

definition person_index ::
  "error + (Household frame \<times> Person frame \<times> Trip frame) \<Rightarrow> error + string list" where
  "person_index r = bind_err r (\<lambda>out. Inr (map fst (fst (snd out))))"

definition trip_index ::
  "error + (Household frame \<times> Person frame \<times> Trip frame) \<Rightarrow> error + string list" where
  "trip_index r = bind_err r (\<lambda>out. Inr (map fst (snd (snd out))))"

definition person_household_refs ::
  "error + (Household frame \<times> Person frame \<times> Trip frame) \<Rightarrow> error + string list" where
  "person_household_refs r = bind_err r (\<lambda>out. Inr (map (\<lambda>kp. hh (snd kp)) (fst (snd out))))"

definition trip_person_refs ::
  "error + (Household frame \<times> Person frame \<times> Trip frame) \<Rightarrow> error + string list" where
  "trip_person_refs r =
     bind_err r (\<lambda>out. Inr (map (\<lambda>kt. trip_p_id (snd kt)) (snd (snd out))))"

definition household_statuses ::
  "error + (Household frame \<times> Person frame \<times> Trip frame) \<Rightarrow> error + EconomicStatus list" where
  "household_statuses r =
     bind_err r (\<lambda>out. Inr (map (\<lambda>kh. economic_status (snd kh)) (fst out)))"

definition person_bike_avails ::
  "error + (Household frame \<times> Person frame \<times> Trip frame) \<Rightarrow> error + Availability list" where
  "person_bike_avails r =
     bind_err r (\<lambda>out. Inr (map (\<lambda>kp. bike_avail (snd kp)) (fst (snd out))))"

text \<open>
  A converter for the worked examples: code 1 of a vehicle availability is \<open>YES\<close>,
  code 2 is \<open>NO\<close>, the economic status counts the persons of the subset, every other
  operation answers with its fallback member. The theorems hold for every converter.
\<close>

definition sample_converter :: SrV2018 where
  "sample_converter =
     \<lparr>srv_gender = (\<lambda>x. Gender.OTHER),
      srv_employment = (\<lambda>x. Employment.OTHER),
      srv_yes_no = (\<lambda>x. Availability.UNKNOWN),
      srv_veh_avail =
        (\<lambda>x. if x = PInt 1 then YES else if x = PInt 2 then NO else Availability.UNKNOWN),
      srv_parking_position = (\<lambda>x. NA),
      srv_economic_status =
        (\<lambda>x ps. if length ps = 0 then EconomicStatus.UNKNOWN
                 else if length ps = 1 then LOW else MEDIUM),
      srv_household_type = (\<lambda>x. SINGLE),
      srv_trip_mode = (\<lambda>x. TripMode.OTHER),
      srv_trip_purpose = (\<lambda>x. Purpose.OTHER),
      srv_sd_group = (\<lambda>x. SourceDestinationGroup.UNKNOWN)\<rparr>"

text \<open>A string-to-float conversion that accepts no string.\<close>

definition no_str_float :: "string \<Rightarrow> pyfloat option" where
  "no_str_float s = None"

text \<open>
  Sample rows: a person row with household number, person number and the two bicycle
  codes given, a household row with its number, a trip row with its three numbers.
\<close>

definition sample_person_row :: "int \<Rightarrow> int \<Rightarrow> int \<Rightarrow> int \<Rightarrow> person_row" where
  "sample_person_row hhnr pnr rad erad =
     \<lparr>p_HHNR = PInt hhnr, p_PNR = PInt pnr, p_GEWICHT_P = PFloat (Finite 1),
      p_V_ALTER = PInt 30, p_V_GESCHLECHT = PInt 1, p_V_EINSCHR_NEIN = PInt 1,
      p_V_ERW = PInt 1, p_V_FUEHR_PKW = PInt 1, p_V_PKW_VERFUEG = PInt 1,
      p_V_RAD_VERFUEG = PInt rad, p_V_ERAD_VERFUEG = PInt erad, p_V_FK_VERFUEG = PInt 2,
      p_V_WOHNUNG = PInt 1, p_V_WOHNORT = PInt 1\<rparr>"

definition sample_household_row :: "int \<Rightarrow> household_row" where
  "sample_household_row hhnr =
     \<lparr>h_HHNR = PInt hhnr, h_GEWICHT_HH = PFloat (Finite 1), h_V_ANZ_PERS = PInt 2,
      h_V_ANZ_PKW_PRIV = PInt 1, h_V_ANZ_PKW_DIENST = PInt 0, h_V_ANZ_RAD = PInt 2,
      h_V_ANZ_ERAD = PInt 0, h_V_ANZ_MOT125 = PInt 0, h_V_ANZ_MOPMOT = PInt 0,
      h_V_ANZ_SONST = PInt 0, h_V_STELLPL1 = PInt 1, h_V_EINK = PInt 5,
      h_E_HHTYP = PInt 1, h_ST_CODE_NAME = PStr ''Potsdam''\<rparr>"

definition sample_trip_row :: "int \<Rightarrow> int \<Rightarrow> int \<Rightarrow> trip_row" where
  "sample_trip_row hhnr pnr wnr =
     \<lparr>t_HHNR = PInt hhnr, t_PNR = PInt pnr, t_WNR = PInt wnr,
      t_GEWICHT_W = PFloat (Finite 1), t_STICHTAG_WTAG = PInt 2, t_E_BEGINN = PInt 480,
      t_E_DAUER = PInt 20, t_GIS_LAENGE = PFloat (Finite 3.5), t_E_HVM = PInt 2,
      t_V_ZWECK = PInt 1, t_E_QZG_17 = PInt 1, t_E_WEG_GUELTIG = PInt 1\<rparr>"



text \<open>One household with two persons, a second household with one, one trip.\<close>

definition sample_tables :: "household_row list \<times> person_row list \<times> trip_row list" where
  "sample_tables =
     ([sample_household_row 1, sample_household_row 2],
      [sample_person_row 1 1 2 1, sample_person_row 1 2 2 2, sample_person_row 2 1 1 2],
      [sample_trip_row 1 1 1])"

text \<open>
  The sample tables with another person table: the two persons of household 1 as
  before, household 2 with two other persons.
\<close>

definition sample_tables_other_persons ::
  "household_row list \<times> person_row list \<times> trip_row list" where
  "sample_tables_other_persons =
     ([sample_household_row 1, sample_household_row 2],
      [sample_person_row 1 1 2 1, sample_person_row 1 2 2 2, sample_person_row 2 3 2 2,
       sample_person_row 2 4 1 1],
      [sample_trip_row 2 3 1])"

section \<open>Facts about the numpy operations\<close>

lemma searchsorted_left_le: "searchsorted_left bins v \<le> length bins"
  by (induction bins) auto

text \<open>
  On ascending bins the result is the bucket whose upper edge is the smallest boundary
  not below the value.
\<close>

lemma searchsorted_left_bucket:
  "sorted bins \<Longrightarrow> i < length bins \<Longrightarrow> v \<le> bins ! i \<Longrightarrow> (i = 0 \<or> bins ! (i - 1) < v)
     \<Longrightarrow> searchsorted_left bins v = i"
proof (induction bins arbitrary: i)
  case Nil
  then show ?case by simp
next
  case (Cons b bs)
  show ?case
  proof (cases i)
    case 0
    with Cons.prems show ?thesis by simp
  next
    case (Suc j)
    from Cons.prems Suc have below: "(b # bs) ! j < v" by simp
    have "b \<le> (b # bs) ! j"
    proof (cases j)
      case 0
      then show ?thesis by simp
    next
      case (Suc k)
      with Cons.prems \<open>i = Suc j\<close> show ?thesis by simp
    qed
    with below have "b < v" by simp
    moreover have "searchsorted_left bs v = j"
    proof (rule Cons.IH)
      from Cons.prems show "sorted bs" by simp
      from Cons.prems Suc show "j < length bs" by simp
      from Cons.prems Suc show "v \<le> bs ! j" by simp
      from below show "j = 0 \<or> bs ! (j - 1) < v" by (cases j) auto
    qed
    ultimately show ?thesis using Suc by simp
  qed
qed

lemma searchsorted_left_overflow:
  "\<forall>b \<in> set bins. b < v \<Longrightarrow> searchsorted_left bins v = length bins"
  by (induction bins) auto

lemma length_setitem: "length (setitem idx positions c) = length idx"
proof -
  have "length (fold (\<lambda>i a. a[i := c]) positions a) = length a" for a :: "nat list"
    by (induction positions arbitrary: a) auto
  then show ?thesis by (simp add: setitem_def)
qed

lemma nth_setitem:
  assumes "j < length idx"
  shows "setitem idx positions c ! j = (if j \<in> set positions then c else idx ! j)"
proof -
  have "j < length a \<Longrightarrow>
      fold (\<lambda>i a. a[i := c]) positions a ! j = (if j \<in> set positions then c else a ! j)"
    for a :: "nat list"
  proof (induction positions arbitrary: a)
    case Nil
    then show ?case by simp
  next
    case (Cons p ps)
    then show ?case by (cases "j = p") (auto simp: nth_list_update)
  qed
  from this [OF assms] show ?thesis by (simp add: setitem_def)
qed

lemma set_np_where: "set (np_where flags) = {i. i < length flags \<and> flags ! i}"
  by (auto simp: np_where_def)

text \<open>The override of \<^verbatim>\<open>DistanceGroup.cut\<close>, position by position.\<close>

lemma setitem_zero_override:
  assumes "length idx = length values"
  shows "setitem idx (np_where (map (\<lambda>v. v \<le> 0) values)) 0
           = map (\<lambda>i. if values ! i \<le> (0::real) then 0 else idx ! i) [0..<length values]"
proof (rule nth_equalityI)
  show "length (setitem idx (np_where (map (\<lambda>v. v \<le> 0) values)) 0)
          = length (map (\<lambda>i. if values ! i \<le> 0 then 0 else idx ! i) [0..<length values])"
    using assms by (simp add: length_setitem)
next
  fix j
  assume "j < length (setitem idx (np_where (map (\<lambda>v. v \<le> 0) values)) 0)"
  then have j: "j < length values"
    using assms by (simp add: length_setitem)
  then show "setitem idx (np_where (map (\<lambda>v. v \<le> 0) values)) 0 ! j
          = map (\<lambda>i. if values ! i \<le> 0 then 0 else idx ! i) [0..<length values] ! j"
    using assms by (simp add: nth_setitem set_np_where)
qed

lemma sorted_distance_bins: "sorted distance_bins"
  by (simp add: distance_bins_def)

lemma sorted_duration_bins: "sorted duration_bins"
  by (simp add: duration_bins_def)

lemma distance_index_in_range:
  "searchsorted_left distance_bins v < length DistanceGroup_members"
  using searchsorted_left_le [of distance_bins v]
  by (simp add: distance_bins_def DistanceGroup_members_def)

lemma duration_index_in_range:
  "searchsorted_left duration_bins v < length DurationGroup_members"
  using searchsorted_left_le [of duration_bins v]
  by (simp add: duration_bins_def DurationGroup_members_def)

text \<open>Both batch classifiers always return, and return the per-value labels.\<close>

lemma DistanceGroup_cut_eq: "DistanceGroup_cut values = Inr (map distance_group values)"
proof -
  let ?idx = "map (searchsorted_left distance_bins) values"
  let ?idx' = "map (\<lambda>i. if values ! i \<le> 0 then 0 else ?idx ! i) [0..<length values]"
  have dig: "np_digitize values distance_bins = Inr ?idx"
    by (simp add: np_digitize_def sorted_distance_bins)
  have over: "setitem ?idx (np_where (map (\<lambda>v. v \<le> 0) values)) 0 = ?idx'"
    by (rule setitem_zero_override) simp
  have range: "list_all (\<lambda>i. i < length DistanceGroup_members) ?idx'"
    using distance_index_in_range
    by (auto simp: list_all_iff DistanceGroup_members_def)
  have "map (\<lambda>i. DistanceGroup_members ! i) ?idx' = map distance_group values"
    by (rule nth_equalityI) (auto simp: distance_group_def DistanceGroup_members_def)
  with dig over range show ?thesis
    by (simp add: DistanceGroup_cut_def np_take_def)
qed

lemma DurationGroup_cut_eq: "DurationGroup_cut values = Inr (map duration_group values)"
proof -
  have dig: "np_digitize values duration_bins
               = Inr (map (searchsorted_left duration_bins) values)"
    by (simp add: np_digitize_def sorted_duration_bins)
  have range: "list_all (\<lambda>i. i < length DurationGroup_members)
                 (map (searchsorted_left duration_bins) values)"
    using duration_index_in_range by (simp add: list_all_iff)
  from dig range show ?thesis
    by (simp add: DurationGroup_cut_def np_take_def duration_group_def comp_def)
qed

section \<open>Facts about the conversions and the loops\<close>

lemma bind_err_Inr_iff: "bind_err m f = Inr y \<longleftrightarrow> (\<exists>x. m = Inr x \<and> f x = Inr y)"
  by (cases m) (simp_all add: bind_err_def)












lemma person_of_bike_avail:
  "person_of c p = Inr x \<Longrightarrow>
     bike_avail x =
       (if srv_veh_avail c (p_V_RAD_VERFUEG p) = YES
           \<or> srv_veh_avail c (p_V_ERAD_VERFUEG p) = YES
        then YES else srv_veh_avail c (p_V_RAD_VERFUEG p))"
  by (auto simp: person_of_def bind_err_Inr_iff)

lemma household_of_status:
  "household_of c ps h = Inr x \<Longrightarrow>
     (\<exists>hhnr. py_int (h_HHNR h) = Inr hhnr \<and> hh_id x = py_str hhnr)
     \<and> economic_status x =
         srv_economic_status c (h_V_EINK h) (filter (\<lambda>kp. hh (snd kp) = hh_id x) ps)"
  by (auto simp: household_of_def bind_err_Inr_iff)


text \<open>The loop: one record for each row, in row order, or the first exception.\<close>

lemma itertuples_loop_Inr:
  "itertuples_loop f rs acc = Inr out \<Longrightarrow> \<exists>xs. out = acc @ xs \<and> map f rs = map Inr xs"
proof (induction rs arbitrary: acc)
  case Nil
  then show ?case by simp
next
  case (Cons r rs)
  from Cons.prems obtain x where x: "f r = Inr x"
    and rest: "itertuples_loop f rs (acc @ [x]) = Inr out"
    by (auto split: sum.splits)
  from Cons.IH [OF rest] obtain xs where "out = (acc @ [x]) @ xs" and "map f rs = map Inr xs"
    by blast
  with x have "out = acc @ (x # xs) \<and> map f (r # rs) = map Inr (x # xs)"
    by simp
  then show ?case by blast
qed


lemma itertuples_loop_nth:
  assumes "itertuples_loop f rs [] = Inr xs"
  shows "length xs = length rs" and "i < length rs \<Longrightarrow> f (rs ! i) = Inr (xs ! i)"
proof -
  from itertuples_loop_Inr [OF assms] have eq: "map f rs = map Inr xs"
    by simp
  then show len: "length xs = length rs"
    by (metis length_map)
  show "f (rs ! i) = Inr (xs ! i)" if "i < length rs"
  proof -
    from that have "map f rs ! i = f (rs ! i)" by simp
    moreover from that len have "map Inr xs ! i = Inr (xs ! i)" by simp
    ultimately show ?thesis using eq by metis
  qed
qed

text \<open>A run that returns, taken apart.\<close>

lemma srv_to_standard_Inr:
  assumes "srv_to_standard c str_float (hh_rows, pp_rows, tt_rows) = Inr (hhs, ps, ts)"
  shows "\<exists>P H T. itertuples_loop (person_of c) pp_rows [] = Inr P
           \<and> ps = map (\<lambda>r. (p_id r, r)) P
           \<and> itertuples_loop (household_of c ps) hh_rows [] = Inr H
           \<and> hhs = map (\<lambda>r. (hh_id r, r)) H
           \<and> itertuples_loop (trip_of c str_float) tt_rows [] = Inr T
           \<and> ts = map (\<lambda>r. (t_id r, r)) T"
  using assms
  by (auto simp: srv_to_standard_def bind_err_Inr_iff set_index_def split: if_splits)



text \<open>Rules that run the model on concrete rows.\<close>

lemmas run_simps =
  srv_to_standard_def person_of_def household_of_def trip_of_def bind_err_def set_index_def
  py_int_def py_float_def pint_def py_str_def digits_of_nat.simps py_eq_int_def truthy_def
  sample_converter_def sample_person_row_def sample_household_row_def sample_trip_row_def
  no_str_float_def

lemmas reading_simps =
  household_index_def person_index_def trip_index_def person_household_refs_def
  trip_person_refs_def household_statuses_def person_bike_avails_def

section \<open>Claims about the classifiers\<close>

lemma distance_bins_nonneg: "b \<in> set distance_bins \<Longrightarrow> 0 \<le> b"
  by (auto simp: distance_bins_def)

lemma distance_group_bucket:
  assumes "i < length distance_bins" and "v \<le> distance_bins ! i"
    and "i = 0 \<or> distance_bins ! (i - 1) < v"
  shows "distance_group v = DistanceGroup_members ! i"
proof (cases "v \<le> 0")
  case True
  have "i = 0"
  proof (rule ccontr)
    assume "i \<noteq> 0"
    with assms have "distance_bins ! (i - 1) < v" and "i - 1 < length distance_bins"
      by auto
    moreover from \<open>i - 1 < length distance_bins\<close> have "0 \<le> distance_bins ! (i - 1)"
      by (intro distance_bins_nonneg nth_mem)
    ultimately show False using True by simp
  qed
  with True show ?thesis
    by (simp add: distance_group_def DistanceGroup_members_def)
next
  case False
  from assms have "searchsorted_left distance_bins v = i"
    by (intro searchsorted_left_bucket sorted_distance_bins)
  with False show ?thesis by (simp add: distance_group_def)
qed

lemma duration_group_bucket:
  assumes "i < length duration_bins" and "v \<le> duration_bins ! i"
    and "i = 0 \<or> duration_bins ! (i - 1) < v"
  shows "duration_group v = DurationGroup_members ! i"
proof -
  from assms have "searchsorted_left duration_bins v = i"
    by (intro searchsorted_left_bucket sorted_duration_bins)
  then show ?thesis by (simp add: duration_group_def)
qed

text \<open>
  C1. For every value \<open>v \<le> 0\<close> in the batch, \<^verbatim>\<open>DistanceGroup.cut\<close> returns the label
  \<open>ZERO\<close> at the position of \<open>v\<close>. The second half says why the boundary table does
  not matter: whatever indices the digitizing step has produced, the override leaves
  index 0 at that position.
\<close>

theorem DistanceGroup_cut_nonpositive_is_ZERO:
  assumes "i < length values" and "values ! i \<le> 0"
  shows "(\<exists>labels. DistanceGroup_cut values = Inr labels \<and> length labels = length values
            \<and> labels ! i = ZERO)
       \<and> (\<forall>idx. length idx = length values \<longrightarrow>
            setitem idx (np_where (map (\<lambda>v. v \<le> 0) values)) 0 ! i = 0)"
proof
  from assms have "map distance_group values ! i = ZERO"
    by (simp add: distance_group_def)
  then show "\<exists>labels. DistanceGroup_cut values = Inr labels \<and> length labels = length values
            \<and> labels ! i = ZERO"
    by (simp add: DistanceGroup_cut_eq)
next
  show "\<forall>idx. length idx = length values \<longrightarrow>
          setitem idx (np_where (map (\<lambda>v. v \<le> 0) values)) 0 ! i = 0"
    using assms by (simp add: setitem_zero_override)
qed

theorem DistanceGroup_cut_nonpositive_is_ZERO_witness:
  "(1::nat) < length [3, -2 :: real] \<and> [3, -2 :: real] ! 1 \<le> 0
   \<and> (\<exists>labels. DistanceGroup_cut [3, -2] = Inr labels
         \<and> length labels = length [3, -2 :: real] \<and> labels ! 1 = ZERO)"
  using DistanceGroup_cut_nonpositive_is_ZERO [of 1 "[3, -2]"] by simp

text \<open>
  C2. Buckets are inclusive on the upper edge. With \<open>boundary\<close> the boundary table and
  \<open>label\<close> the members in declaration order: a value \<open>v\<close> with
  \<open>boundary[i-1] < v \<le> boundary[i]\<close> (no lower edge for \<open>i = 0\<close>) gets \<open>label[i]\<close>, a
  value above the largest boundary gets the last label, for both classifiers; and the
  six examples of the specification.
\<close>

theorem cut_upper_edge_inclusive:
  "(i < length distance_bins \<longrightarrow> v \<le> distance_bins ! i
      \<longrightarrow> (i = 0 \<or> distance_bins ! (i - 1) < v)
      \<longrightarrow> DistanceGroup_cut [v] = Inr [DistanceGroup_members ! i])
   \<and> (last distance_bins < v \<longrightarrow> DistanceGroup_cut [v] = Inr [OVER_100KM])
   \<and> (j < length duration_bins \<longrightarrow> w \<le> duration_bins ! j
      \<longrightarrow> (j = 0 \<or> duration_bins ! (j - 1) < w)
      \<longrightarrow> DurationGroup_cut [w] = Inr [DurationGroup_members ! j])
   \<and> (last duration_bins < w \<longrightarrow> DurationGroup_cut [w] = Inr [REST_OF_DAY])
   \<and> DistanceGroup_cut [0.5] = Inr [G_500M]
   \<and> DistanceGroup_cut [0.51] = Inr [G_1KM]
   \<and> DistanceGroup_cut [150] = Inr [OVER_100KM]
   \<and> DurationGroup_cut [5] = Inr [G_5MIN]
   \<and> DurationGroup_cut [5.0001] = Inr [G_15MIN]
   \<and> DurationGroup_cut [1000] = Inr [REST_OF_DAY]"
proof -
  have a: "i < length distance_bins \<longrightarrow> v \<le> distance_bins ! i
      \<longrightarrow> (i = 0 \<or> distance_bins ! (i - 1) < v)
      \<longrightarrow> DistanceGroup_cut [v] = Inr [DistanceGroup_members ! i]"
    by (simp add: DistanceGroup_cut_eq distance_group_bucket)
  have b: "last distance_bins < v \<longrightarrow> DistanceGroup_cut [v] = Inr [OVER_100KM]"
    by (simp add: DistanceGroup_cut_eq distance_group_def distance_bins_def
        DistanceGroup_members_def)
  have c: "j < length duration_bins \<longrightarrow> w \<le> duration_bins ! j
      \<longrightarrow> (j = 0 \<or> duration_bins ! (j - 1) < w)
      \<longrightarrow> DurationGroup_cut [w] = Inr [DurationGroup_members ! j]"
    by (simp add: DurationGroup_cut_eq duration_group_bucket)
  have d: "last duration_bins < w \<longrightarrow> DurationGroup_cut [w] = Inr [REST_OF_DAY]"
    by (simp add: DurationGroup_cut_eq duration_group_def duration_bins_def
        DurationGroup_members_def)
  have e1: "DistanceGroup_cut [0.5] = Inr [G_500M]"
    by (simp add: DistanceGroup_cut_eq distance_group_def distance_bins_def
        DistanceGroup_members_def)
  have e2: "DistanceGroup_cut [0.51] = Inr [G_1KM]"
    by (simp add: DistanceGroup_cut_eq distance_group_def distance_bins_def
        DistanceGroup_members_def)
  have e3: "DistanceGroup_cut [150] = Inr [OVER_100KM]"
    by (simp add: DistanceGroup_cut_eq distance_group_def distance_bins_def
        DistanceGroup_members_def)
  have e4: "DurationGroup_cut [5] = Inr [G_5MIN]"
    by (simp add: DurationGroup_cut_eq duration_group_def duration_bins_def
        DurationGroup_members_def)
  have e5: "DurationGroup_cut [5.0001] = Inr [G_15MIN]"
    by (simp add: DurationGroup_cut_eq duration_group_def duration_bins_def
        DurationGroup_members_def)
  have e6: "DurationGroup_cut [1000] = Inr [REST_OF_DAY]"
    by (simp add: DurationGroup_cut_eq duration_group_def duration_bins_def
        DurationGroup_members_def)
  from a b c d e1 e2 e3 e4 e5 e6 show ?thesis by blast
qed

theorem cut_upper_edge_inclusive_witness:
  "(4::nat) < length distance_bins \<and> (3::real) \<le> distance_bins ! 4
   \<and> distance_bins ! (4 - 1) < (3::real)
   \<and> DistanceGroup_cut [3] = Inr [G_3KM]
   \<and> last distance_bins < (100.5::real) \<and> DistanceGroup_cut [100.5] = Inr [OVER_100KM]
   \<and> (2::nat) < length duration_bins \<and> (30::real) \<le> duration_bins ! 2
   \<and> duration_bins ! (2 - 1) < (30::real)
   \<and> DurationGroup_cut [30] = Inr [G_30MIN]
   \<and> last duration_bins < (751::real) \<and> DurationGroup_cut [751] = Inr [REST_OF_DAY]"
  using cut_upper_edge_inclusive [of 4 3 2 30] cut_upper_edge_inclusive [of 0 "100.5" 0 751]
  by (simp add: distance_bins_def duration_bins_def DistanceGroup_members_def
      DurationGroup_members_def)

text \<open>
  C7. Classifying a batch is classifying each value on its own: the label at position
  \<open>i\<close> of the batch result is the single label returned for the one-element batch
  \<open>[values ! i]\<close>, for both classifiers.
\<close>

theorem cut_batch_equals_per_value:
  assumes "i < length values"
  shows "(\<exists>labels l. DistanceGroup_cut values = Inr labels
             \<and> DistanceGroup_cut [values ! i] = Inr [l] \<and> labels ! i = l)
       \<and> (\<exists>labels l. DurationGroup_cut values = Inr labels
             \<and> DurationGroup_cut [values ! i] = Inr [l] \<and> labels ! i = l)"
  using assms by (simp add: DistanceGroup_cut_eq DurationGroup_cut_eq)

theorem cut_batch_equals_per_value_witness:
  "(2::nat) < length [-1, 0.7, 42 :: real]
   \<and> (\<exists>labels l. DistanceGroup_cut [-1, 0.7, 42] = Inr labels
         \<and> DistanceGroup_cut [[-1, 0.7, 42] ! 2] = Inr [l] \<and> labels ! 2 = l)
   \<and> (\<exists>labels l. DurationGroup_cut [-1, 0.7, 42] = Inr labels
         \<and> DurationGroup_cut [[-1, 0.7, 42] ! 2] = Inr [l] \<and> labels ! 2 = l)"
  using cut_batch_equals_per_value [of 2 "[-1, 0.7, 42]"] by simp

text \<open>
  C10. \<^verbatim>\<open>DurationGroup.cut\<close> has no zero bucket: every value \<open>v \<le> 5\<close>, zero and the
  negative values included, gets the first label \<open>G_5MIN\<close>.
\<close>

theorem DurationGroup_cut_no_zero_bucket:
  "v \<le> 5 \<Longrightarrow> DurationGroup_cut [v] = Inr [G_5MIN]"
  by (simp add: DurationGroup_cut_eq duration_group_def duration_bins_def
      DurationGroup_members_def)

theorem DurationGroup_cut_no_zero_bucket_witness:
  "(0::real) \<le> 5 \<and> DurationGroup_cut [0] = Inr [G_5MIN]
   \<and> (-3::real) \<le> 5 \<and> DurationGroup_cut [-3] = Inr [G_5MIN]"
  using DurationGroup_cut_no_zero_bucket [of 0] DurationGroup_cut_no_zero_bucket [of "-3"]
  by simp

section \<open>Claims about \<^verbatim>\<open>pint\<close> and \<^verbatim>\<open>srv_to_standard\<close>\<close>












text \<open>
  C8. In a run that returns, the economic status of the household of raw row \<open>i\<close> is the
  converter's \<^verbatim>\<open>economic_status\<close> applied to the raw income code of that row and to
  the rows of the returned person frame whose household identifier is that
  household's id. Another run on the same household table, with whatever person and
  trip tables, gives the household the same status if its person frame has the same
  rows for that id: the persons of other households play no part.
\<close>

theorem economic_status_from_own_person_subset:
  assumes "srv_to_standard c str_float (hh_rows, pp_rows, tt_rows) = Inr (hhs, ps, ts)"
    and "i < length hh_rows"
  shows "length hhs = length hh_rows
     \<and> fst (hhs ! i) = hh_id (snd (hhs ! i))
     \<and> economic_status (snd (hhs ! i))
         = srv_economic_status c (h_V_EINK (hh_rows ! i))
             (filter (\<lambda>kp. hh (snd kp) = hh_id (snd (hhs ! i))) ps)
     \<and> (srv_to_standard c str_float (hh_rows, pp_rows', tt_rows') = Inr (hhs', ps', ts')
          \<longrightarrow> filter (\<lambda>kp. hh (snd kp) = hh_id (snd (hhs ! i))) ps'
                = filter (\<lambda>kp. hh (snd kp) = hh_id (snd (hhs ! i))) ps
          \<longrightarrow> economic_status (snd (hhs' ! i)) = economic_status (snd (hhs ! i)))"
proof -
  have one: "length hhs = length hh_rows \<and> fst (hhs ! i) = hh_id (snd (hhs ! i))
      \<and> (\<exists>hhnr. py_int (h_HHNR (hh_rows ! i)) = Inr hhnr \<and> hh_id (snd (hhs ! i)) = py_str hhnr)
      \<and> economic_status (snd (hhs ! i))
         = srv_economic_status c (h_V_EINK (hh_rows ! i))
             (filter (\<lambda>kp. hh (snd kp) = hh_id (snd (hhs ! i))) ps)"
    if "srv_to_standard c str_float (hh_rows, pp_rows, tt_rows) = Inr (hhs, ps, ts)"
    for pp_rows tt_rows hhs ps ts
  proof -
    from srv_to_standard_Inr [OF that] obtain H
      where H: "itertuples_loop (household_of c ps) hh_rows [] = Inr H"
        and hhs: "hhs = map (\<lambda>r. (hh_id r, r)) H"
      by blast
    note len = itertuples_loop_nth(1) [OF H]
    from itertuples_loop_nth(2) [OF H \<open>i < length hh_rows\<close>]
    have "household_of c ps (hh_rows ! i) = Inr (H ! i)" .
    from household_of_status [OF this] len \<open>i < length hh_rows\<close> show ?thesis
      by (simp add: hhs)
  qed
  from one [OF assms(1)] obtain hhnr
    where first: "length hhs = length hh_rows" "fst (hhs ! i) = hh_id (snd (hhs ! i))"
      "economic_status (snd (hhs ! i))
         = srv_economic_status c (h_V_EINK (hh_rows ! i))
             (filter (\<lambda>kp. hh (snd kp) = hh_id (snd (hhs ! i))) ps)"
      and id1: "py_int (h_HHNR (hh_rows ! i)) = Inr hhnr" "hh_id (snd (hhs ! i)) = py_str hhnr"
    by blast
  have "economic_status (snd (hhs' ! i)) = economic_status (snd (hhs ! i))"
    if run': "srv_to_standard c str_float (hh_rows, pp_rows', tt_rows') = Inr (hhs', ps', ts')"
      and same: "filter (\<lambda>kp. hh (snd kp) = hh_id (snd (hhs ! i))) ps'
                = filter (\<lambda>kp. hh (snd kp) = hh_id (snd (hhs ! i))) ps"
  proof -
    from one [OF run'] id1 have "hh_id (snd (hhs' ! i)) = hh_id (snd (hhs ! i))"
      and "economic_status (snd (hhs' ! i))
         = srv_economic_status c (h_V_EINK (hh_rows ! i))
             (filter (\<lambda>kp. hh (snd kp) = hh_id (snd (hhs' ! i))) ps')"
      by auto
    with same first(3) show ?thesis by simp
  qed
  with first show ?thesis by blast
qed

theorem economic_status_from_own_person_subset_witness:
  "(0::nat) < length (fst sample_tables)
   \<and> household_statuses (srv_to_standard sample_converter no_str_float sample_tables)
       = Inr [MEDIUM, LOW]
   \<and> household_statuses
       (srv_to_standard sample_converter no_str_float sample_tables_other_persons)
       = Inr [MEDIUM, MEDIUM]"
proof -
  let ?r = "projr (srv_to_standard sample_converter no_str_float sample_tables)"
  let ?r' = "projr (srv_to_standard sample_converter no_str_float sample_tables_other_persons)"
  have run: "srv_to_standard sample_converter no_str_float
      ([sample_household_row 1, sample_household_row 2],
       [sample_person_row 1 1 2 1, sample_person_row 1 2 2 2, sample_person_row 2 1 1 2],
       [sample_trip_row 1 1 1])
      = Inr (fst ?r, fst (snd ?r), snd (snd ?r))"
    by (simp add: sample_tables_def run_simps)
  have i: "(0::nat) < length [sample_household_row 1, sample_household_row 2]"
    by simp
  have run': "srv_to_standard sample_converter no_str_float
      ([sample_household_row 1, sample_household_row 2],
       [sample_person_row 1 1 2 1, sample_person_row 1 2 2 2, sample_person_row 2 3 2 2,
        sample_person_row 2 4 1 1],
       [sample_trip_row 2 3 1])
      = Inr (fst ?r', fst (snd ?r'), snd (snd ?r'))"
    by (simp add: sample_tables_other_persons_def run_simps)
  from economic_status_from_own_person_subset [OF run i,
      of "[sample_person_row 1 1 2 1, sample_person_row 1 2 2 2, sample_person_row 2 3 2 2,
           sample_person_row 2 4 1 1]"
         "[sample_trip_row 2 3 1]" "fst ?r'" "fst (snd ?r')" "snd (snd ?r')"] run'
  show ?thesis
    by (simp add: reading_simps sample_tables_def sample_tables_other_persons_def run_simps)
qed

text \<open>
  C9. In a run that returns, the bike availability of the Person of raw row \<open>i\<close> is
  \<open>YES\<close> if the converter's \<^verbatim>\<open>veh_avail\<close> gives \<open>YES\<close> for the bike code or for the
  e-bike code of that row, and \<^verbatim>\<open>veh_avail\<close> of the bike code otherwise.
\<close>

theorem bike_avail_or_over_yes:
  assumes "srv_to_standard c str_float (hh_rows, pp_rows, tt_rows) = Inr (hhs, ps, ts)"
    and "i < length pp_rows"
  shows "length ps = length pp_rows
     \<and> bike_avail (snd (ps ! i))
         = (if srv_veh_avail c (p_V_RAD_VERFUEG (pp_rows ! i)) = YES
               \<or> srv_veh_avail c (p_V_ERAD_VERFUEG (pp_rows ! i)) = YES
            then YES else srv_veh_avail c (p_V_RAD_VERFUEG (pp_rows ! i)))"
proof -
  from srv_to_standard_Inr [OF assms(1)] obtain P
    where P: "itertuples_loop (person_of c) pp_rows [] = Inr P"
      and ps: "ps = map (\<lambda>r. (p_id r, r)) P"
    by blast
  note len = itertuples_loop_nth(1) [OF P]
  from itertuples_loop_nth(2) [OF P assms(2)]
  have "person_of c (pp_rows ! i) = Inr (P ! i)" .
  from person_of_bike_avail [OF this] len assms(2) show ?thesis
    by (simp add: ps)
qed

theorem bike_avail_or_over_yes_witness:
  "(0::nat) < length (fst (snd sample_tables)) \<and> (1::nat) < length (fst (snd sample_tables))
   \<and> person_bike_avails (srv_to_standard sample_converter no_str_float sample_tables)
       = Inr [YES, NO, YES]"
proof -
  let ?r = "projr (srv_to_standard sample_converter no_str_float sample_tables)"
  have run: "srv_to_standard sample_converter no_str_float
      ([sample_household_row 1, sample_household_row 2],
       [sample_person_row 1 1 2 1, sample_person_row 1 2 2 2, sample_person_row 2 1 1 2],
       [sample_trip_row 1 1 1])
      = Inr (fst ?r, fst (snd ?r), snd (snd ?r))"
    by (simp add: sample_tables_def run_simps)
  from bike_avail_or_over_yes [OF run, of 0] bike_avail_or_over_yes [OF run, of 1]
  show ?thesis
    by (simp add: reading_simps sample_tables_def run_simps)
qed

end
